theory Spec2Isabelle
  imports Complex_Main
begin

section \<open>StepSync: the step detector of \<open>PrecisionStepTracker\<close> (app.js)\<close>

subsection \<open>JavaScript numbers\<close>

text \<open>
  A JavaScript number is a binary64 value. The finite ones are modelled by the real they
  denote, and the three values that are not finite are kept apart, because the arithmetic
  and the comparisons of \<open>detectStep\<close> treat them differently. Negative zero is not told
  from zero: \<open>>\<close> does not tell them apart either. A \<open>null\<close> component is coerced to \<open>0\<close>
  by \<open>*\<close> and by \<open>Math.abs\<close>, so it behaves as \<open>Num 0\<close>.
\<close>

datatype jsnum = Num real | PInf | NInf | NaN

text \<open>
  Rounding to the nearest integer, a tie going to the even one.
\<close>

definition round_ties_even :: "real \<Rightarrow> int" where
  "round_ties_even x =
    (let f = \<lfloor>x\<rfloor>; d = x - of_int f
     in if d < 1/2 then f else if 1/2 < d then f + 1 else if even f then f else f + 1)"

text \<open>
  The exponent of the last place of the binary64 numbers around \<open>r\<close>: 52 below that of
  its leading bit, and never below the subnormal one.
\<close>

definition binary64_exponent :: "real \<Rightarrow> int" where
  "binary64_exponent r = max (\<lfloor>log 2 \<bar>r\<bar>\<rfloor> - 52) (- 1074)"

definition overflow_threshold :: real where
  "overflow_threshold = 2 ^ 1024"

text \<open>
  The binary64 value of a real: the nearest multiple of the last place, ties to even,
  and an infinity when that reaches \<open>2\<^sup>1\<^sup>0\<^sup>2\<^sup>4\<close>. Every arithmetic operation returns the
  rounded exact result, and a decimal literal of the source denotes the rounded value
  of the decimal (\<open>9.8\<close> is \<open>round64 9.8\<close>, a little above 9.8).
\<close>

definition round64 :: "real \<Rightarrow> jsnum" where
  "round64 r =
    (if r = 0 then Num 0
     else let e = binary64_exponent r;
              v = of_int (round_ties_even (r / 2 powi e)) * 2 powi e
          in if overflow_threshold \<le> \<bar>v\<bar> then (if 0 < r then PInf else NInf) else Num v)"

text \<open>\<open>a * b\<close>: NaN is contagious, and an infinity times zero is NaN.\<close>

fun js_times :: "jsnum \<Rightarrow> jsnum \<Rightarrow> jsnum" where
  "js_times NaN b = NaN"
| "js_times a NaN = NaN"
| "js_times (Num a) (Num b) = round64 (a * b)"
| "js_times (Num a) PInf = (if a = 0 then NaN else if 0 < a then PInf else NInf)"
| "js_times (Num a) NInf = (if a = 0 then NaN else if 0 < a then NInf else PInf)"
| "js_times PInf (Num b) = (if b = 0 then NaN else if 0 < b then PInf else NInf)"
| "js_times NInf (Num b) = (if b = 0 then NaN else if 0 < b then NInf else PInf)"
| "js_times PInf PInf = PInf"
| "js_times PInf NInf = NInf"
| "js_times NInf PInf = NInf"
| "js_times NInf NInf = PInf"

text \<open>\<open>a + b\<close>: NaN is contagious, and the sum of opposite infinities is NaN.\<close>

fun js_plus :: "jsnum \<Rightarrow> jsnum \<Rightarrow> jsnum" where
  "js_plus NaN b = NaN"
| "js_plus a NaN = NaN"
| "js_plus (Num a) (Num b) = round64 (a + b)"
| "js_plus (Num a) PInf = PInf"
| "js_plus (Num a) NInf = NInf"
| "js_plus PInf (Num b) = PInf"
| "js_plus NInf (Num b) = NInf"
| "js_plus PInf PInf = PInf"
| "js_plus PInf NInf = NaN"
| "js_plus NInf PInf = NaN"
| "js_plus NInf NInf = NInf"

text \<open>
  \<open>Math.sqrt\<close>: NaN on a negative argument, and otherwise the rounded square root, as
  the square root of binary64 is.
\<close>

fun Math_sqrt :: "jsnum \<Rightarrow> jsnum" where
  "Math_sqrt (Num a) = (if a < 0 then NaN else round64 (sqrt a))"
| "Math_sqrt PInf = PInf"
| "Math_sqrt NInf = NaN"
| "Math_sqrt NaN = NaN"

text \<open>\<open>Math.abs\<close>.\<close>

fun Math_abs :: "jsnum \<Rightarrow> jsnum" where
  "Math_abs (Num a) = Num \<bar>a\<bar>"
| "Math_abs PInf = PInf"
| "Math_abs NInf = PInf"
| "Math_abs NaN = NaN"

text \<open>\<open>a > b\<close>: false whenever an operand is NaN.\<close>

fun js_gt :: "jsnum \<Rightarrow> jsnum \<Rightarrow> bool" where
  "js_gt NaN b = False"
| "js_gt a NaN = False"
| "js_gt (Num a) (Num b) = (b < a)"
| "js_gt (Num a) PInf = False"
| "js_gt (Num a) NInf = True"
| "js_gt PInf (Num b) = True"
| "js_gt NInf (Num b) = False"
| "js_gt PInf PInf = False"
| "js_gt PInf NInf = True"
| "js_gt NInf PInf = False"
| "js_gt NInf NInf = False"

subsection \<open>The data of the tracker\<close>

text \<open>
  Times are results of \<open>Date.now()\<close>, integral milliseconds far below \<open>2\<^sup>5\<^sup>3\<close>, whose
  differences are exact, and \<open>lastPeakTime\<close> only ever holds \<open>0\<close> or such a result: they
  are modelled by \<open>int\<close>. The confidence is a sum of the literals \<open>0\<close>, \<open>0.4\<close> and \<open>0.3\<close>:
  it is modelled by the exact sum, a \<open>real\<close>, and so is the threshold \<open>0.7\<close>. Each of the
  eight sums \<open>detectStep\<close> can form is, in binary64, the number nearest to the exact sum
  (\<open>0.4 + 0.3\<close> is the number \<open>0.7\<close>, \<open>0.7 + 0.3\<close> is \<open>1\<close>), and it exceeds the number
  \<open>0.7\<close> exactly when the exact sum exceeds 0.7: this is proved below as
  \<open>confidence64_exact\<close> and \<open>confidence_of_binary64\<close>.
\<close>

text \<open>An object \<open>{x, y, z}\<close>: the acceleration of an event, and two fields of the state.\<close>

datatype xyz = XYZ (x_of: jsnum) (y_of: jsnum) (z_of: jsnum)

text \<open>
  A \<open>devicemotion\<close> event, as far as \<open>processMotionData\<close> reads it: either acceleration
  object may be \<open>null\<close>.
\<close>

record motionEvent =
  event_acceleration :: "xyz option"
  event_accelerationIncludingGravity :: "xyz option"

text \<open>An entry of \<open>stepSignatures\<close>.\<close>

record stepSignature =
  magnitude :: jsnum
  verticalMovement :: jsnum
  confidence :: real
  timestamp :: int

text \<open>\<open>this.detectionState\<close>.\<close>

record detectionState =
  acceleration :: xyz
  velocity :: xyz
  lastPeakTime :: int
  stepCooldown :: int
  confidenceThreshold :: real
  stepSignatures :: "stepSignature list"

text \<open>
  The fields of a \<open>PrecisionStepTracker\<close> that are not DOM elements. What the tracker
  writes to the page and to \<open>localStorage\<close> (\<open>updateDisplay\<close>, \<open>logActivity\<close>,
  \<open>saveSettings\<close>) is a function of these fields and is not part of the state.
\<close>

record tracker =
  steps :: int
  dailyGoal :: int
  userWeight :: jsnum
  stepLength :: real
  detectionState :: detectionState

subsection \<open>\<open>detectStep\<close>\<close>

text \<open>
  \<open>detectStep(x, y, z, currentTime)\<close> mutates \<open>this.detectionState\<close> and returns a
  boolean: the model takes the state and returns the boolean with the new state.
  \<open>push\<close> appends at the end, \<open>shift\<close> removes the first element.
\<close>

definition detectStep ::
  "jsnum \<Rightarrow> jsnum \<Rightarrow> jsnum \<Rightarrow> int \<Rightarrow> detectionState \<Rightarrow> bool \<times> detectionState" where
  "detectStep x y z currentTime state =
    (let magnitude = Math_sqrt (js_plus (js_plus (js_times x x) (js_times y y)) (js_times z z));
         movementThreshold = round64 9.8;
         timeSinceLastStep = currentTime - lastPeakTime state;
         isSignificantMovement = js_gt magnitude movementThreshold;
         isValidStepInterval = (timeSinceLastStep > stepCooldown state);
         verticalMovement = Math_abs y;
         isVerticalStep = js_gt verticalMovement (round64 6);
         confidence = (0::real);
         confidence = confidence + (if isSignificantMovement then 0.4 else 0);
         confidence = confidence + (if isValidStepInterval then 0.3 else 0);
         confidence = confidence + (if isVerticalStep then 0.3 else 0);
         pushed = stepSignatures state @
           [\<lparr>magnitude = magnitude, verticalMovement = verticalMovement,
             confidence = confidence, timestamp = currentTime\<rparr>];
         limited = (if length pushed > 10 then tl pushed else pushed)
     in (confidence > confidenceThreshold state \<and> isValidStepInterval,
         state\<lparr>stepSignatures := limited\<rparr>))"

text \<open>
  The confidence as \<open>detectStep\<close> forms it in binary64, from its three tests.
\<close>

definition confidence64 :: "bool \<Rightarrow> bool \<Rightarrow> bool \<Rightarrow> jsnum" where
  "confidence64 m i v =
    (let confidence = Num 0;
         confidence = js_plus confidence (if m then round64 0.4 else Num 0);
         confidence = js_plus confidence (if i then round64 0.3 else Num 0);
         confidence = js_plus confidence (if v then round64 0.3 else Num 0)
     in confidence)"

subsection \<open>\<open>recordStep\<close> and \<open>processMotionData\<close>\<close>

text \<open>
  \<open>recordStep\<close> reads the clock itself: \<open>now\<close> is the value of its \<open>Date.now()\<close>.
\<close>

definition recordStep :: "int \<Rightarrow> tracker \<Rightarrow> tracker" where
  "recordStep now this =
    (let currentTime = now;
         state = detectionState this
     in this\<lparr>steps := steps this + 1,
             detectionState := state\<lparr>lastPeakTime := currentTime\<rparr>\<rparr>)"

text \<open>
  \<open>processMotionData(event)\<close> reads the clock once (\<open>now1\<close>) and, when the step is
  detected, \<open>recordStep\<close> reads it again (\<open>now2\<close>). \<open>a || b\<close> on two objects-or-null is
  the first one that is not \<open>null\<close>.
\<close>

definition processMotionData :: "motionEvent \<Rightarrow> int \<Rightarrow> int \<Rightarrow> tracker \<Rightarrow> tracker" where
  "processMotionData event now1 now2 this =
    (let acceleration =
           (case event_acceleration event of
              Some a \<Rightarrow> Some a
            | None \<Rightarrow> event_accelerationIncludingGravity event)
     in case acceleration of
          None \<Rightarrow> this
        | Some a \<Rightarrow>
            (let currentTime = now1;
                 (stepDetected, state) =
                   detectStep (x_of a) (y_of a) (z_of a) currentTime (detectionState this);
                 this = this\<lparr>detectionState := state\<rparr>
             in if stepDetected then recordStep now2 this else this))"

subsection \<open>The constructor and the other handlers\<close>

text \<open>
  What \<open>saveSettings\<close> stored in \<open>localStorage\<close>, as \<open>loadSettings\<close> reads it back. JSON
  has no infinity: an infinite weight is stored as \<open>null\<close>.
\<close>

record savedSettings =
  saved_steps :: int
  saved_dailyGoal :: int
  saved_userWeight :: "real option"

text \<open>\<open>v || d\<close>: \<open>0\<close> and \<open>null\<close> are falsy.\<close>

definition loadSettings :: "savedSettings option \<Rightarrow> tracker \<Rightarrow> tracker" where
  "loadSettings stored this =
    (case stored of
       None \<Rightarrow> this
     | Some settings \<Rightarrow>
         this\<lparr>steps := (if saved_steps settings \<noteq> 0 then saved_steps settings else 0),
               dailyGoal :=
                 (if saved_dailyGoal settings \<noteq> 0 then saved_dailyGoal settings else 10000),
               userWeight :=
                 (case saved_userWeight settings of
                    Some w \<Rightarrow> if w \<noteq> 0 then Num w else Num 70
                  | None \<Rightarrow> Num 70)\<rparr>)"

text \<open>
  The tracker when the constructor returns; \<open>stored\<close> is the content of \<open>localStorage\<close>.
\<close>

definition constructor :: "savedSettings option \<Rightarrow> tracker" where
  "constructor stored =
    loadSettings stored
      \<lparr>steps = 0, dailyGoal = 10000, userWeight = Num 70, stepLength = 0.7,
       detectionState =
         \<lparr>acceleration = XYZ (Num 0) (Num 0) (Num 0),
          velocity = XYZ (Num 0) (Num 0) (Num 0),
          lastPeakTime = 0,
          stepCooldown = 250,
          confidenceThreshold = 0.7,
          stepSignatures = []\<rparr>\<rparr>"

text \<open>
  Everything that happens to a tracker after its construction: a \<open>devicemotion\<close> event
  with the two clock readings of its handler, or a click on one of the three buttons
  (\<open>SetGoal\<close> carries the result of \<open>parseInt\<close>, where a field that does not parse
  gives NaN, which fails the test \<open>> 0\<close> as \<open>0\<close> does; \<open>SetWeight\<close> carries the result
  of \<open>parseFloat\<close>).
\<close>

datatype action =
    Motion motionEvent int int
  | ManualStep
  | SetGoal int
  | SetWeight jsnum

fun handle :: "action \<Rightarrow> tracker \<Rightarrow> tracker" where
  "handle (Motion event now1 now2) this = processMotionData event now1 now2 this"
| "handle ManualStep this = this\<lparr>steps := steps this + 1\<rparr>"
| "handle (SetGoal newGoal) this = (if newGoal > 0 then this\<lparr>dailyGoal := newGoal\<rparr> else this)"
| "handle (SetWeight newWeight) this =
     (if js_gt newWeight (Num 0) then this\<lparr>userWeight := newWeight\<rparr> else this)"

fun run :: "action list \<Rightarrow> tracker \<Rightarrow> tracker" where
  "run [] this = this"
| "run (a # as) this = run as (handle a this)"

subsection \<open>Names for what \<open>detectStep\<close> computes\<close>

text \<open>
  The local constants of \<open>detectStep\<close>, as functions of its arguments and of the state
  it reads, and the object literal it pushes.
\<close>

definition magnitude_of :: "jsnum \<Rightarrow> jsnum \<Rightarrow> jsnum \<Rightarrow> jsnum" where
  "magnitude_of x y z =
     Math_sqrt (js_plus (js_plus (js_times x x) (js_times y y)) (js_times z z))"

definition isSignificantMovement :: "jsnum \<Rightarrow> jsnum \<Rightarrow> jsnum \<Rightarrow> bool" where
  "isSignificantMovement x y z = js_gt (magnitude_of x y z) (round64 9.8)"

definition isValidStepInterval :: "int \<Rightarrow> detectionState \<Rightarrow> bool" where
  "isValidStepInterval currentTime state =
     (currentTime - lastPeakTime state > stepCooldown state)"

definition isVerticalStep :: "jsnum \<Rightarrow> bool" where
  "isVerticalStep y = js_gt (Math_abs y) (round64 6)"

definition confidence_of :: "jsnum \<Rightarrow> jsnum \<Rightarrow> jsnum \<Rightarrow> int \<Rightarrow> detectionState \<Rightarrow> real" where
  "confidence_of x y z currentTime state =
     0 + (if isSignificantMovement x y z then 0.4 else 0)
       + (if isValidStepInterval currentTime state then 0.3 else 0)
       + (if isVerticalStep y then 0.3 else 0)"

definition signature_of ::
  "jsnum \<Rightarrow> jsnum \<Rightarrow> jsnum \<Rightarrow> int \<Rightarrow> detectionState \<Rightarrow> stepSignature" where
  "signature_of x y z currentTime state =
     \<lparr>magnitude = magnitude_of x y z, verticalMovement = Math_abs y,
      confidence = confidence_of x y z currentTime state, timestamp = currentTime\<rparr>"

text \<open>The acceleration object \<open>processMotionData\<close> works on, if any.\<close>

definition acceleration_of :: "motionEvent \<Rightarrow> xyz option" where
  "acceleration_of event =
     (case event_acceleration event of
        Some a \<Rightarrow> Some a
      | None \<Rightarrow> event_accelerationIncludingGravity event)"

text \<open>
  Whether \<open>processMotionData\<close> reaches \<open>recordStep\<close>: it has an acceleration object and
  its call of \<open>detectStep\<close> returns true.
\<close>

definition stepDetected :: "motionEvent \<Rightarrow> int \<Rightarrow> tracker \<Rightarrow> bool" where
  "stepDetected event now1 this =
     (case acceleration_of event of
        None \<Rightarrow> False
      | Some a \<Rightarrow> fst (detectStep (x_of a) (y_of a) (z_of a) now1 (detectionState this)))"

text \<open>
  The signatures computed by the \<open>detectStep\<close> calls of a run, in the order of the calls.
\<close>

fun signatures_of :: "action list \<Rightarrow> tracker \<Rightarrow> stepSignature list" where
  "signatures_of [] this = []"
| "signatures_of (Motion event now1 now2 # as) this =
     (case acceleration_of event of
        None \<Rightarrow> []
      | Some a \<Rightarrow> [signature_of (x_of a) (y_of a) (z_of a) now1 (detectionState this)])
     @ signatures_of as (processMotionData event now1 now2 this)"
| "signatures_of (a # as) this = signatures_of as (handle a this)"

subsection \<open>The confidence as the specification words it\<close>


subsection \<open>The clock\<close>

text \<open>
  \<open>Date.now()\<close> read twice in one handler: the second reading is not before the first.
  This holds of every action but a \<open>devicemotion\<close> event handled while the clock is
  set back.
\<close>

fun clock_ordered :: "action \<Rightarrow> bool" where
  "clock_ordered (Motion event now1 now2) = (now1 \<le> now2)"
| "clock_ordered a = True"

section \<open>Basic facts\<close>

lemma detectStep_eq:
  "detectStep x y z t s =
    (confidence_of x y z t s > confidenceThreshold s \<and> isValidStepInterval t s,
     s\<lparr>stepSignatures :=
         (if length (stepSignatures s) \<ge> 10
          then tl (stepSignatures s @ [signature_of x y z t s])
          else stepSignatures s @ [signature_of x y z t s])\<rparr>)"
  by (simp add: detectStep_def Let_def confidence_of_def isSignificantMovement_def
      isValidStepInterval_def isVerticalStep_def magnitude_of_def signature_of_def)

lemma handle_config:
  "stepCooldown (detectionState (handle a this)) = stepCooldown (detectionState this) \<and>
   confidenceThreshold (detectionState (handle a this)) = confidenceThreshold (detectionState this)"
  by (cases a)
    (simp_all add: processMotionData_def detectStep_eq recordStep_def Let_def
      split: option.split prod.split)

lemma run_config:
  "stepCooldown (detectionState (run as this)) = stepCooldown (detectionState this) \<and>
   confidenceThreshold (detectionState (run as this)) = confidenceThreshold (detectionState this)"
  by (induction as arbitrary: this) (simp_all add: handle_config)

lemma constructor_state:
  "detectionState (constructor stored) =
     \<lparr>acceleration = XYZ (Num 0) (Num 0) (Num 0), velocity = XYZ (Num 0) (Num 0) (Num 0),
      lastPeakTime = 0, stepCooldown = 250, confidenceThreshold = 0.7, stepSignatures = []\<rparr>"
  by (simp add: constructor_def loadSettings_def split: option.split)

lemma reachable_config:
  "stepCooldown (detectionState (run as (constructor stored))) = 250"
  "confidenceThreshold (detectionState (run as (constructor stored))) = 0.7"
  by (simp_all add: run_config constructor_state)

lemma last_pushed:
  "last (stepSignatures (snd (detectStep x y z t s))) = signature_of x y z t s"
  by (cases "stepSignatures s") (simp_all add: detectStep_eq last_tl)

lemma processMotionData_eq:
  "processMotionData event now1 now2 this =
    (case acceleration_of event of
       None \<Rightarrow> this
     | Some a \<Rightarrow>
        (let state = snd (detectStep (x_of a) (y_of a) (z_of a) now1 (detectionState this))
         in if stepDetected event now1 this
            then this\<lparr>steps := steps this + 1,
                      detectionState := state\<lparr>lastPeakTime := now2\<rparr>\<rparr>
            else this\<lparr>detectionState := state\<rparr>))"
  by (simp add: processMotionData_def acceleration_of_def stepDetected_def recordStep_def
      Let_def split: option.split prod.split)

section \<open>Rounding\<close>

text \<open>
  How \<open>round64\<close> is evaluated: once the binade of a real is known, its rounded value is
  a rounding to an integer.
\<close>

lemma floor_log2_eq:
  assumes "2 powi k \<le> \<bar>r\<bar>" and "\<bar>r\<bar> < 2 powi (k + 1)"
  shows "\<lfloor>log 2 \<bar>r\<bar>\<rfloor> = k"
proof -
  have "(0::real) < 2 powi k" by simp
  with assms(1) have pos: "0 < \<bar>r\<bar>" by linarith
  have "(2::real) powr real_of_int k = 2 powi k"
    by (rule powr_real_of_int') simp_all
  moreover have "(2::real) powr real_of_int (k + 1) = 2 powi (k + 1)"
    by (rule powr_real_of_int') simp_all
  ultimately have "2 powr real_of_int k \<le> \<bar>r\<bar> \<and> \<bar>r\<bar> < 2 powr real_of_int (k + 1)"
    using assms by simp
  moreover have "(1::real) < 2" by simp
  ultimately show ?thesis
    using floor_log_eq_powr_iff [OF pos, of 2 k] by blast
qed

lemma round64_zero [simp]: "round64 0 = Num 0"
  by (simp add: round64_def)

lemma round64_normal:
  assumes "2 powi k \<le> \<bar>r\<bar>" and "\<bar>r\<bar> < 2 powi (k + 1)" and "- 1022 \<le> k"
  shows "round64 r =
    (let v = of_int (round_ties_even (r / 2 powi (k - 52))) * 2 powi (k - 52)
     in if overflow_threshold \<le> \<bar>v\<bar> then (if 0 < r then PInf else NInf) else Num v)"
proof -
  have "(0::real) < 2 powi k" by simp
  with assms(1) have "0 < \<bar>r\<bar>" by linarith
  then have "r \<noteq> 0" by simp
  moreover have "binary64_exponent r = k - 52"
    using assms(3) by (simp add: binary64_exponent_def floor_log2_eq [OF assms(1,2)])
  ultimately show ?thesis
    by (simp add: round64_def Let_def)
qed

lemma round_ties_even_eqI:
  assumes "of_int m - 1/2 < x" and "x < of_int m + 1/2"
  shows "round_ties_even x = m"
proof -
  have "\<lfloor>x\<rfloor> = m \<or> \<lfloor>x\<rfloor> = m - 1"
    using assms by linarith
  then show ?thesis
  proof
    assume f: "\<lfloor>x\<rfloor> = m"
    with assms have "x - of_int \<lfloor>x\<rfloor> < 1/2" by simp
    with f show ?thesis by (simp add: round_ties_even_def Let_def)
  next
    assume f: "\<lfloor>x\<rfloor> = m - 1"
    with assms have "1/2 < x - of_int \<lfloor>x\<rfloor>" by simp
    with f show ?thesis by (simp add: round_ties_even_def Let_def)
  qed
qed

lemma round64_sqrt:
  assumes "(2 powi k)\<^sup>2 \<le> a" and "a < (2 powi (k + 1))\<^sup>2" and "- 1022 \<le> k"
    and "((of_int m - 1/2) * 2 powi (k - 52))\<^sup>2 < a"
    and "a < ((of_int m + 1/2) * 2 powi (k - 52))\<^sup>2"
    and "1 \<le> m" and "of_int m * 2 powi (k - 52) < overflow_threshold"
  shows "round64 (sqrt a) = Num (of_int m * 2 powi (k - 52))"
proof -
  have p: "(0::real) < 2 powi j" for j by simp
  have a0: "0 \<le> a" using assms(1) by (meson order_trans zero_le_power2)
  have lo: "2 powi k \<le> \<bar>sqrt a\<bar>"
    using assms(1) a0 p [of k] by (simp add: real_le_rsqrt)
  have hi: "\<bar>sqrt a\<bar> < 2 powi (k + 1)"
    using assms(2) a0 p [of "k + 1"] by (simp add: real_less_lsqrt)
  have m0: "0 \<le> (real_of_int m - 1/2) * 2 powi (k - 52)" (is "0 \<le> ?l")
    using assms(6) p [of "k - 52"] by simp
  have "?l < sqrt a"
    using assms(4) by (rule real_less_rsqrt)
  then have l: "of_int m - 1/2 < sqrt a / 2 powi (k - 52)"
    using p [of "k - 52"] by (simp add: pos_less_divide_eq)
  have "sqrt a < (of_int m + 1/2) * 2 powi (k - 52)"
    using assms(5,6) a0 p [of "k - 52"] by (intro real_less_lsqrt) simp_all
  then have u: "sqrt a / 2 powi (k - 52) < of_int m + 1/2"
    using p [of "k - 52"] by (simp add: pos_divide_less_eq)
  have r: "round_ties_even (sqrt a / 2 powi (k - 52)) = m"
    using l u by (rule round_ties_even_eqI)
  have "\<bar>real_of_int m * 2 powi (k - 52)\<bar> = of_int m * 2 powi (k - 52)"
    using assms(6) by (simp add: abs_mult)
  with assms(7) show ?thesis
    by (simp add: round64_normal [OF lo hi assms(3)] r Let_def)
qed

lemma round_ties_even_nonneg: "0 \<le> x \<Longrightarrow> 0 \<le> round_ties_even x"
proof -
  assume "0 \<le> x"
  then have "0 \<le> \<lfloor>x\<rfloor>" by simp
  then show ?thesis
    by (simp add: round_ties_even_def Let_def)
qed

lemma round64_nonneg:
  assumes "0 \<le> r"
  shows "round64 r = PInf \<or> (\<exists>v\<ge>0. round64 r = Num v)"
proof (cases "r = 0")
  case True
  then show ?thesis by simp
next
  case False
  with assms have pos: "0 < r" by simp
  let ?e = "binary64_exponent r"
  let ?v = "real_of_int (round_ties_even (r / 2 powi ?e)) * 2 powi ?e"
  have "0 \<le> r / 2 powi ?e"
    using assms by simp
  then have "0 \<le> round_ties_even (r / 2 powi ?e)"
    by (rule round_ties_even_nonneg)
  then have "0 \<le> ?v"
    by simp
  then show ?thesis
    using pos by (auto simp: round64_def Let_def)
qed

lemma round64_9_8: "round64 9.8 = Num (2758454771764429 / 281474976710656)"
  by (subst round64_normal [where k = 3])
    (simp_all add: round_ties_even_def Let_def overflow_threshold_def)

lemma round64_9_9: "round64 9.9 = Num (5573204538870989 / 562949953421312)"
  by (subst round64_normal [where k = 3])
    (simp_all add: round_ties_even_def Let_def overflow_threshold_def)

lemma round64_6: "round64 6 = Num 6"
  by (subst round64_normal [where k = 2])
    (simp_all add: round_ties_even_def Let_def overflow_threshold_def)

lemma round64_nano: "round64 (1 / 10 ^ 9) = Num (4835703278458517 / 4835703278458516698824704)"
  by (subst round64_normal [where k = "-30"])
    (simp_all add: round_ties_even_def Let_def overflow_threshold_def)

lemma square_9_8:
  "round64 (2758454771764429 / 281474976710656
     * (2758454771764429 / 281474976710656))
   = Num (1689553547705713 / 17592186044416)"
  by (subst round64_normal [where k = 6])
    (simp_all add: round_ties_even_def Let_def overflow_threshold_def)

lemma square_9_8_again:
  "round64 (1689553547705713 / 17592186044416)
   = Num (1689553547705713 / 17592186044416)"
  by (subst round64_normal [where k = 6])
    (simp_all add: round_ties_even_def Let_def overflow_threshold_def)

lemma sqrt_square_9_8:
  "round64 (sqrt (1689553547705713 / 17592186044416))
   = Num (2758454771764429 / 281474976710656)"
  using round64_sqrt [where k = 3 and m = 5516909543528858 and a = "1689553547705713 / 17592186044416"]
  by (simp add: power2_eq_square overflow_threshold_def)

lemma square_10: "round64 (10 * 10) = Num 100"
  by (subst round64_normal [where k = 6])
    (simp_all add: round_ties_even_def Let_def overflow_threshold_def)

lemma round64_100: "round64 100 = Num 100"
  by (subst round64_normal [where k = 6])
    (simp_all add: round_ties_even_def Let_def overflow_threshold_def)

lemma square_9_9:
  "round64 (5573204538870989 / 562949953421312
     * (5573204538870989 / 562949953421312))
   = Num (6896840616852849 / 70368744177664)"
  by (subst round64_normal [where k = 6])
    (simp_all add: round_ties_even_def Let_def overflow_threshold_def)

lemma sum_walking:
  "round64 (100
     + 6896840616852849 / 70368744177664)
   = Num (870857189663703 / 4398046511104)"
  by (subst round64_normal [where k = 7])
    (simp_all add: round_ties_even_def Let_def overflow_threshold_def)

lemma sqrt_walking:
  "round64 (sqrt (870857189663703 / 4398046511104))
   = Num (3960804016793747 / 281474976710656)"
  using round64_sqrt [where k = 3 and m = 7921608033587494 and a = "870857189663703 / 4398046511104"]
  by (simp add: power2_eq_square overflow_threshold_def)

lemma square_nano:
  "round64 (4835703278458517 / 4835703278458516698824704
     * (4835703278458517 / 4835703278458516698824704))
   = Num (1298074214633707 / 1298074214633706907132624082305024)"
  by (subst round64_normal [where k = "-60"])
    (simp_all add: round_ties_even_def Let_def overflow_threshold_def)

lemma sum_nano:
  "round64 (1689553547705713 / 17592186044416
     + 1298074214633707 / 1298074214633706907132624082305024)
   = Num (1689553547705713 / 17592186044416)"
  by (subst round64_normal [where k = 6])
    (simp_all add: round_ties_even_def Let_def overflow_threshold_def)

text \<open>
  The samples of the examples. The square of the number 9.8 is rounded up to
  \<open>96.04000000000002\<close>, and its square root is rounded back to 9.8: the magnitude of
  \<open>(0, 0, 9.8)\<close> is 9.8 and does not exceed the threshold.
\<close>

lemma times_zero: "js_times (Num 0) (Num 0) = Num 0"
  by simp

lemma plus_zero: "js_plus (Num 0) (Num 0) = Num 0"
  by simp

lemma times_9_8:
  "js_times (Num (2758454771764429 / 281474976710656))
     (Num (2758454771764429 / 281474976710656))
   = Num (1689553547705713 / 17592186044416)"
  by (simp only: js_times.simps square_9_8)

lemma plus_zero_square_9_8:
  "js_plus (Num 0)
     (Num (1689553547705713 / 17592186044416))
   = Num (1689553547705713 / 17592186044416)"
  by (simp only: js_plus.simps add_0 square_9_8_again)

lemma Math_sqrt_square_9_8:
  "Math_sqrt (Num (1689553547705713 / 17592186044416))
   = Num (2758454771764429 / 281474976710656)"
proof -
  have "\<not> (1689553547705713 / 17592186044416 :: real) < 0" by simp
  then show ?thesis
    by (simp only: Math_sqrt.simps if_False sqrt_square_9_8)
qed

lemma magnitude_first_sample: "magnitude_of (Num 0) (Num 0) (round64 9.8) = round64 9.8"
  by (simp only: magnitude_of_def round64_9_8 times_zero plus_zero times_9_8
      plus_zero_square_9_8 Math_sqrt_square_9_8)

lemma first_sample:
  "isSignificantMovement (Num 0) (Num 0) (round64 9.8) = False"
  "isVerticalStep (Num 0) = False"
proof -
  show "isSignificantMovement (Num 0) (Num 0) (round64 9.8) = False"
    by (simp only: isSignificantMovement_def magnitude_first_sample)
      (simp only: round64_9_8 js_gt.simps, simp)
  show "isVerticalStep (Num 0) = False"
    unfolding isVerticalStep_def round64_6 by simp
qed

lemma times_10: "js_times (Num 10) (Num 10) = Num 100"
  by (simp only: js_times.simps square_10)

lemma times_9_9:
  "js_times (Num (5573204538870989 / 562949953421312))
     (Num (5573204538870989 / 562949953421312))
   = Num (6896840616852849 / 70368744177664)"
  by (simp only: js_times.simps square_9_9)

lemma plus_zero_100: "js_plus (Num 0) (Num 100) = Num 100"
  by (simp only: js_plus.simps add_0 round64_100)

lemma plus_walking:
  "js_plus (Num 100)
     (Num (6896840616852849 / 70368744177664))
   = Num (870857189663703 / 4398046511104)"
  by (simp only: js_plus.simps sum_walking)

lemma Math_sqrt_walking:
  "Math_sqrt (Num (870857189663703 / 4398046511104))
   = Num (3960804016793747 / 281474976710656)"
proof -
  have "\<not> (870857189663703 / 4398046511104 :: real) < 0" by simp
  then show ?thesis
    by (simp only: Math_sqrt.simps if_False sqrt_walking)
qed

lemma magnitude_walking:
  "magnitude_of (Num 0) (Num 10) (round64 9.9) = Num (3960804016793747 / 281474976710656)"
  by (simp only: magnitude_of_def round64_9_9 times_zero times_10 times_9_9 plus_zero_100
      plus_walking Math_sqrt_walking)

lemma walking_sample:
  "isSignificantMovement (Num 0) (Num 10) (round64 9.9) = True"
  "isVerticalStep (Num 10) = True"
proof -
  show "isSignificantMovement (Num 0) (Num 10) (round64 9.9) = True"
    by (simp only: isSignificantMovement_def magnitude_walking)
      (simp only: round64_9_8 js_gt.simps, simp)
  show "isVerticalStep (Num 10) = True"
    unfolding isVerticalStep_def round64_6 by simp
qed

lemma times_nano:
  "js_times (Num (4835703278458517 / 4835703278458516698824704))
     (Num (4835703278458517 / 4835703278458516698824704))
   = Num (1298074214633707 / 1298074214633706907132624082305024)"
  by (simp only: js_times.simps square_nano)

lemma plus_nano:
  "js_plus (Num (1689553547705713 / 17592186044416))
     (Num (1298074214633707 / 1298074214633706907132624082305024))
   = Num (1689553547705713 / 17592186044416)"
  by (simp only: js_plus.simps sum_nano)

lemma magnitude_rounded_away:
  "magnitude_of (Num 0) (round64 9.8) (round64 (1 / 10 ^ 9)) = round64 9.8"
  by (simp only: magnitude_of_def round64_9_8 round64_nano times_zero times_9_8 times_nano
      plus_zero_square_9_8 plus_nano Math_sqrt_square_9_8)

lemma rounded_away:
  "isSignificantMovement (Num 0) (round64 9.8) (round64 (1 / 10 ^ 9)) = False"
  "isVerticalStep (round64 9.8) = True"
proof -
  show "isSignificantMovement (Num 0) (round64 9.8) (round64 (1 / 10 ^ 9)) = False"
    by (simp only: isSignificantMovement_def magnitude_rounded_away)
      (simp only: round64_9_8 js_gt.simps, simp)
  show "isVerticalStep (round64 9.8) = True"
    unfolding isVerticalStep_def round64_6 round64_9_8 by simp
qed

lemma round64_9_8_reduced: "round64 (49 / 5) = Num (2758454771764429 / 281474976710656)"
  using round64_9_8 by simp

text \<open>
  The confidence in binary64. Each of the sums \<open>detectStep\<close> can form is the number
  nearest to the exact sum, and exceeds the number \<open>0.7\<close> exactly when the exact sum
  exceeds 0.7: the exact sums stand for them.
\<close>

lemma round64_0_4: "round64 (2 / 5) = Num (3602879701896397 / 9007199254740992)"
  by (subst round64_normal [where k = "-2"])
    (simp_all add: round_ties_even_def Let_def overflow_threshold_def)

lemma round64_0_3: "round64 (3 / 10) = Num (5404319552844595 / 18014398509481984)"
  by (subst round64_normal [where k = "-2"])
    (simp_all add: round_ties_even_def Let_def overflow_threshold_def)

lemma round64_0_7: "round64 (7 / 10) = Num (3152519739159347 / 4503599627370496)"
  by (subst round64_normal [where k = "-1"])
    (simp_all add: round_ties_even_def Let_def overflow_threshold_def)

lemma round64_0_6: "round64 (3 / 5) = Num (5404319552844595 / 9007199254740992)"
  by (subst round64_normal [where k = "-1"])
    (simp_all add: round_ties_even_def Let_def overflow_threshold_def)

lemma round64_1: "round64 1 = Num 1"
  by (subst round64_normal [where k = 0])
    (simp_all add: round_ties_even_def Let_def overflow_threshold_def)

lemma number_0_4:
  "round64 (3602879701896397 / 9007199254740992)
   = Num (3602879701896397 / 9007199254740992)"
  by (subst round64_normal [where k = "-2"])
    (simp_all add: round_ties_even_def Let_def overflow_threshold_def)

lemma number_0_3:
  "round64 (5404319552844595 / 18014398509481984)
   = Num (5404319552844595 / 18014398509481984)"
  by (subst round64_normal [where k = "-2"])
    (simp_all add: round_ties_even_def Let_def overflow_threshold_def)

lemma number_0_7:
  "round64 (3152519739159347 / 4503599627370496)
   = Num (3152519739159347 / 4503599627370496)"
  by (subst round64_normal [where k = "-1"])
    (simp_all add: round_ties_even_def Let_def overflow_threshold_def)

lemma sum_0_4_0_3:
  "round64 (12610078956637389 / 18014398509481984)
   = Num (3152519739159347 / 4503599627370496)"
  by (subst round64_normal [where k = "-1"])
    (simp_all add: round_ties_even_def Let_def overflow_threshold_def)

lemma sum_0_7_0_3: "round64 (18014398509481983 / 18014398509481984) = Num 1"
  by (subst round64_normal [where k = "-1"])
    (simp_all add: round_ties_even_def Let_def overflow_threshold_def)

lemma sum_0_3_0_3:
  "round64 (5404319552844595 / 9007199254740992)
   = Num (5404319552844595 / 9007199254740992)"
  by (subst round64_normal [where k = "-1"])
    (simp_all add: round_ties_even_def Let_def overflow_threshold_def)

lemmas confidence_values = round64_0_4 round64_0_3 round64_0_7 round64_0_6 round64_1 number_0_4 number_0_3 number_0_7 sum_0_4_0_3 sum_0_7_0_3 sum_0_3_0_3

lemma confidence64_exact:
  "confidence64 m i v
     = round64 ((if m then 0.4 else 0) + (if i then 0.3 else 0) + (if v then 0.3 else 0))"
  "js_gt (confidence64 m i v) (round64 0.7)
     = ((if m then 0.4 else 0) + (if i then 0.3 else 0) + (if v then 0.3 else 0) > (0.7::real))"
  by (cases m; cases i; cases v; simp add: confidence64_def confidence_values)+


text \<open>
  A product that is too large is an infinity, and so is the magnitude then.
\<close>

lemma round64_huge:
  "round64 (10 ^ 155)
   = Num 100000000000000000717623154091016830408061481189160311806712772146250661680488340128266606984576189330386573813296762136260081534229469225952733653677113344"
  by (subst round64_normal [where k = 514])
    (simp_all add: round_ties_even_def Let_def overflow_threshold_def)

lemma square_huge:
  "round64 (100000000000000000717623154091016830408061481189160311806712772146250661680488340128266606984576189330386573813296762136260081534229469225952733653677113344 * 100000000000000000717623154091016830408061481189160311806712772146250661680488340128266606984576189330386573813296762136260081534229469225952733653677113344)
   = PInf"
  by (subst round64_normal [where k = 1029])
    (simp_all add: round_ties_even_def Let_def overflow_threshold_def)

lemma magnitude_overflow: "magnitude_of (round64 (10 ^ 155)) (Num 0) (Num 0) = PInf"
  by (simp only: magnitude_of_def round64_huge js_times.simps square_huge mult_zero_left
      round64_zero js_plus.simps Math_sqrt.simps)

lemma stored_confidence:
  "confidence (last (stepSignatures (snd (detectStep x y z t s)))) = confidence_of x y z t s"
  by (simp add: last_pushed signature_of_def)

text \<open>
  The exact confidence stands for the binary64 one: rounded, it is the number
  \<open>detectStep\<close> computes, and it exceeds 0.7 exactly when that number exceeds the number
  \<open>0.7\<close>.
\<close>

lemma confidence_of_binary64:
  "round64 (confidence_of x y z t s)
     = confidence64 (isSignificantMovement x y z) (isValidStepInterval t s) (isVerticalStep y)"
  "(confidence_of x y z t s > 0.7)
     = js_gt (confidence64 (isSignificantMovement x y z) (isValidStepInterval t s)
               (isVerticalStep y)) (round64 0.7)"
proof -
  show "round64 (confidence_of x y z t s)
     = confidence64 (isSignificantMovement x y z) (isValidStepInterval t s) (isVerticalStep y)"
    by (simp only: confidence64_exact(1) confidence_of_def add_0)
  show "(confidence_of x y z t s > 0.7)
     = js_gt (confidence64 (isSignificantMovement x y z) (isValidStepInterval t s)
               (isVerticalStep y)) (round64 0.7)"
    by (simp only: confidence64_exact(2) confidence_of_def add_0)
qed

section \<open>The decision\<close>

text \<open>
  Claim C1. In every reachable state of the tracker, \<open>detectStep\<close> returns true exactly
  when the confidence it has just stored exceeds 0.7 and the time since the last peak
  exceeds 250; and \<open>processMotionData\<close> counts one step exactly then (for an event with
  an acceleration object), and none otherwise.
\<close>

theorem step_emitted_iff:
  "fst (detectStep x y z t (detectionState (run as (constructor stored)))) =
     (confidence (last (stepSignatures
          (snd (detectStep x y z t (detectionState (run as (constructor stored))))))) > 0.7
      \<and> t - lastPeakTime (detectionState (run as (constructor stored))) > 250)
   \<and> steps (processMotionData event now1 now2 (run as (constructor stored))) =
       steps (run as (constructor stored)) +
       (case acceleration_of event of
          None \<Rightarrow> 0
        | Some a \<Rightarrow>
           if confidence (last (stepSignatures (detectionState
                  (processMotionData event now1 now2 (run as (constructor stored)))))) > 0.7
              \<and> now1 - lastPeakTime (detectionState (run as (constructor stored))) > 250
           then 1 else 0)"
proof -
  let ?tr = "run as (constructor stored)"
  have ret: "fst (detectStep x y z t (detectionState ?tr)) =
     (confidence_of x y z t (detectionState ?tr) > 0.7
      \<and> t - lastPeakTime (detectionState ?tr) > 250)" for x y z t
    by (simp add: detectStep_eq reachable_config isValidStepInterval_def)
  have after: "stepSignatures (detectionState (processMotionData event now1 now2 ?tr)) =
      stepSignatures (snd (detectStep (x_of a) (y_of a) (z_of a) now1 (detectionState ?tr)))"
    if "acceleration_of event = Some a" for a
    using that by (simp add: processMotionData_eq Let_def)
  show ?thesis
  proof (cases "acceleration_of event")
    case None
    then show ?thesis by (simp add: ret stored_confidence processMotionData_eq)
  next
    case (Some a)
    have "steps (processMotionData event now1 now2 ?tr) =
        steps ?tr + (if stepDetected event now1 ?tr then 1 else 0)"
      using Some by (simp add: processMotionData_eq Let_def)
    moreover have "stepDetected event now1 ?tr =
        (confidence_of (x_of a) (y_of a) (z_of a) now1 (detectionState ?tr) > 0.7
         \<and> now1 - lastPeakTime (detectionState ?tr) > 250)"
      using Some by (simp add: stepDetected_def ret)
    ultimately show ?thesis
      using Some by (simp add: ret stored_confidence after)
  qed
qed


text \<open>
  The magnitude is the rounded one. In the sample \<open>(0, 9.8, 0.000000001)\<close> the square
  of the third component is lost when it is added to that of the second: the magnitude
  is 9.8, the movement is not significant, and the first call at time 1000 stores the
  confidence 0.6.
\<close>

lemma rounded_away_confidence:
  "confidence (last (stepSignatures
       (snd (detectStep (Num 0) (round64 9.8) (round64 (1 / 10 ^ 9)) 1000
          (detectionState (constructor stored))))))
   = 0.6"
proof -
  have "isValidStepInterval 1000 (detectionState (constructor stored))"
    by (simp add: isValidStepInterval_def constructor_state)
  then have "confidence_of (Num 0) (round64 9.8) (round64 (1 / 10 ^ 9)) 1000
      (detectionState (constructor stored)) = 0.6"
    by (simp only: confidence_of_def rounded_away) simp
  then show ?thesis
    by (simp only: stored_confidence)
qed

section \<open>The first call\<close>

text \<open>
  \<open>lastPeakTime\<close> starts at 0, not at a value that stands for "no peak yet": at time 0
  the first call does not have a valid interval.
\<close>

theorem first_call_at_zero_counterexample:
  "\<not> isValidStepInterval 0 (detectionState (constructor None))
   \<and> confidence (last (stepSignatures
        (snd (detectStep (Num 0) (Num 0) (round64 9.8) 0 (detectionState (constructor None))))))
      = 0
   \<and> confidence (last (stepSignatures
        (snd (detectStep (Num 0) (Num 0) (round64 9.8) 0 (detectionState (constructor None))))))
      \<noteq> 0.3"
proof -
  have i: "\<not> isValidStepInterval 0 (detectionState (constructor None))"
    by (simp add: isValidStepInterval_def constructor_state)
  have "\<not> isSignificantMovement (Num 0) (Num 0) (round64 9.8)"
    by (simp only: first_sample) simp
  moreover have "\<not> isVerticalStep (Num 0)"
    by (simp only: first_sample) simp
  ultimately have "confidence_of (Num 0) (Num 0) (round64 9.8) 0 (detectionState (constructor None))
      = 0"
    using i by (simp add: confidence_of_def)
  with i show ?thesis
    by (simp add: stored_confidence)
qed

text \<open>
  Claim C4 (amended). On the sample \<open>(0, 0, 9.8)\<close> at time \<open>t\<close>, the first call finds
  no significant movement and no vertical step; the interval is valid exactly when
  \<open>t > 250\<close> (so not at \<open>t = 0\<close>), the confidence is 0.3 then and 0 otherwise, and in
  both cases no step is detected: the handler only stores the signature.
\<close>

theorem first_call_example:
  "isSignificantMovement (Num 0) (Num 0) (round64 9.8) = False
   \<and> isVerticalStep (Num 0) = False
   \<and> isValidStepInterval t (detectionState (constructor stored)) = (t > 250)
   \<and> confidence (last (stepSignatures
        (snd (detectStep (Num 0) (Num 0) (round64 9.8) t (detectionState (constructor stored))))))
      = (if t > 250 then 0.3 else 0)
   \<and> fst (detectStep (Num 0) (Num 0) (round64 9.8) t (detectionState (constructor stored))) = False
   \<and> processMotionData
        \<lparr>event_acceleration = Some (XYZ (Num 0) (Num 0) (round64 9.8)),
         event_accelerationIncludingGravity = g\<rparr> t t' (constructor stored)
      = (constructor stored)
          \<lparr>detectionState := (detectionState (constructor stored))
             \<lparr>stepSignatures :=
                [\<lparr>magnitude = round64 9.8, verticalMovement = Num 0,
                  confidence = (if t > 250 then 0.3 else 0), timestamp = t\<rparr>]\<rparr>\<rparr>"
proof -
  have m: "isSignificantMovement (Num 0) (Num 0) (round64 9.8) = False"
    by (rule first_sample)
  have v: "isVerticalStep (Num 0) = False"
    by (rule first_sample)
  have i: "isValidStepInterval t (detectionState (constructor stored)) = (t > 250)"
    by (simp add: isValidStepInterval_def constructor_state)
  have c: "confidence_of (Num 0) (Num 0) (round64 9.8) t (detectionState (constructor stored))
      = (if t > 250 then 0.3 else 0)"
    by (simp only: confidence_of_def m v i) simp
  have mag: "magnitude_of (Num 0) (Num 0) (round64 9.8) = round64 9.8"
    by (rule magnitude_first_sample)
  have r: "fst (detectStep (Num 0) (Num 0) (round64 9.8) t (detectionState (constructor stored)))
      = False"
    by (simp only: detectStep_eq c fst_conv) (simp add: constructor_state)
  have p: "processMotionData
        \<lparr>event_acceleration = Some (XYZ (Num 0) (Num 0) (round64 9.8)),
         event_accelerationIncludingGravity = g\<rparr> t t' (constructor stored)
      = (constructor stored)
          \<lparr>detectionState := (detectionState (constructor stored))
             \<lparr>stepSignatures :=
                [\<lparr>magnitude = round64 9.8, verticalMovement = Num 0,
                  confidence = (if t > 250 then 0.3 else 0), timestamp = t\<rparr>]\<rparr>\<rparr>"
    using r c mag
    by (simp add: processMotionData_eq acceleration_of_def stepDetected_def Let_def
        detectStep_eq signature_of_def constructor_state)
  show ?thesis
    using m v i c r p by (simp add: stored_confidence)
qed

section \<open>A walking sample\<close>

text \<open>
  The sample \<open>(0, 10, 9.9)\<close> of the worked examples moves significantly and vertically,
  so its fate is decided by the interval alone.
\<close>

lemma walking_confidence:
  "confidence_of (Num 0) (Num 10) (round64 9.9) t s = (if isValidStepInterval t s then 1 else 0.7)"
  by (simp only: confidence_of_def walking_sample) simp

lemma walking_accepted:
  "confidenceThreshold s = 0.7 \<Longrightarrow>
   fst (detectStep (Num 0) (Num 10) (round64 9.9) t s) = isValidStepInterval t s"
  by (simp only: detectStep_eq walking_confidence fst_conv) simp

lemma walking_event:
  assumes "acceleration_of event = Some (XYZ (Num 0) (Num 10) (round64 9.9))"
  shows "confidenceThreshold (detectionState s) = 0.7 \<Longrightarrow>
         stepDetected event t s = isValidStepInterval t (detectionState s)"
    and "confidence (last (stepSignatures (detectionState (processMotionData event t t' s))))
         = (if isValidStepInterval t (detectionState s) then 1 else 0.7)"
    and "lastPeakTime (detectionState (processMotionData event t t' s))
         = (if stepDetected event t s then t' else lastPeakTime (detectionState s))"
    and "steps (processMotionData event t t' s)
         = (if stepDetected event t s then steps s + 1 else steps s)"
proof -
  show "stepDetected event t s = isValidStepInterval t (detectionState s)"
    if "confidenceThreshold (detectionState s) = 0.7"
    using that by (simp add: stepDetected_def assms walking_accepted)
  show "confidence (last (stepSignatures (detectionState (processMotionData event t t' s))))
      = (if isValidStepInterval t (detectionState s) then 1 else 0.7)"
    by (simp add: processMotionData_eq assms Let_def stored_confidence walking_confidence)
  show "lastPeakTime (detectionState (processMotionData event t t' s))
      = (if stepDetected event t s then t' else lastPeakTime (detectionState s))"
    by (simp add: processMotionData_eq assms Let_def detectStep_eq)
  show "steps (processMotionData event t t' s)
      = (if stepDetected event t s then steps s + 1 else steps s)"
    by (simp add: processMotionData_eq assms Let_def)
qed

lemma processMotionData_config:
  "confidenceThreshold (detectionState (processMotionData event t t' s))
     = confidenceThreshold (detectionState s)"
  "stepCooldown (detectionState (processMotionData event t t' s))
     = stepCooldown (detectionState s)"
  using handle_config [of "Motion event t t'" s] by simp_all

lemma fresh_tracker:
  "lastPeakTime (detectionState (constructor None)) = 0"
  "stepCooldown (detectionState (constructor None)) = 250"
  "confidenceThreshold (detectionState (constructor None)) = 0.7"
  "steps (constructor None) = 0"
  by (simp_all add: constructor_state) (simp add: constructor_def loadSettings_def)

text \<open>
  The worked sequence takes the accepted sample's time for the last peak. When the clock
  advances between the two readings of the first handler, the last peak is later than
  1000 and the second sample comes less than 100 after it.
\<close>

theorem worked_sequence_counterexample:
  "stepDetected \<lparr>event_acceleration = Some (XYZ (Num 0) (Num 10) (round64 9.9)),
               event_accelerationIncludingGravity = None\<rparr> 1000 (constructor None)
   \<and> lastPeakTime (detectionState (processMotionData \<lparr>event_acceleration = Some (XYZ (Num 0) (Num 10) (round64 9.9)),
               event_accelerationIncludingGravity = None\<rparr> 1000 1001 (constructor None))) = 1001
   \<and> lastPeakTime (detectionState (processMotionData \<lparr>event_acceleration = Some (XYZ (Num 0) (Num 10) (round64 9.9)),
               event_accelerationIncludingGravity = None\<rparr> 1000 1001 (constructor None))) \<noteq> 1000
   \<and> 1100 - lastPeakTime (detectionState (processMotionData \<lparr>event_acceleration = Some (XYZ (Num 0) (Num 10) (round64 9.9)),
               event_accelerationIncludingGravity = None\<rparr> 1000 1001 (constructor None)))
      = 99"
proof -
  let ?e = "\<lparr>event_acceleration = Some (XYZ (Num 0) (Num 10) (round64 9.9)),
               event_accelerationIncludingGravity = None\<rparr>"
  have acc: "acceleration_of ?e = Some (XYZ (Num 0) (Num 10) (round64 9.9))"
    by (simp add: acceleration_of_def)
  have "isValidStepInterval 1000 (detectionState (constructor None))"
    by (simp add: isValidStepInterval_def fresh_tracker)
  then have d: "stepDetected ?e 1000 (constructor None)"
    by (simp add: walking_event(1) [OF acc] fresh_tracker)
  then have "lastPeakTime (detectionState (processMotionData ?e 1000 1001 (constructor None)))
      = 1001"
    by (simp add: walking_event(3) [OF acc])
  with d show ?thesis by simp
qed

text \<open>
  Claim C5 (amended). From a fresh tracker (no peak yet, \<open>lastPeakTime = 0\<close>): the sample
  \<open>(0, 10, 9.9)\<close> at 1000 has confidence 1.0 and is accepted, and \<open>lastPeakTime\<close> becomes
  the time \<open>t1'\<close> that \<open>recordStep\<close> reads. With \<open>1000 \<le> t1' < 1050\<close>: the same sample at
  1100 is at most 100 after the peak, has no valid interval, confidence 0.7, and is
  rejected; at 1300 it is more than 250 after the peak, has confidence 1.0 and is
  accepted.
\<close>

theorem worked_sequence:
  assumes "1000 \<le> t1'" and "t1' < 1050"
  shows
  "let event = \<lparr>event_acceleration = Some (XYZ (Num 0) (Num 10) (round64 9.9)),
               event_accelerationIncludingGravity = None\<rparr>;
       s0 = constructor None;
       s1 = processMotionData event 1000 t1' s0;
       s2 = processMotionData event 1100 t2' s1;
       s3 = processMotionData event 1300 t3' s2
   in lastPeakTime (detectionState s0) = 0
    \<and> stepDetected event 1000 s0
    \<and> confidence (last (stepSignatures (detectionState s1))) = 1.0
    \<and> lastPeakTime (detectionState s1) = t1'
    \<and> 1100 - lastPeakTime (detectionState s1) \<le> 100
    \<and> \<not> isValidStepInterval 1100 (detectionState s1)
    \<and> confidence (last (stepSignatures (detectionState s2))) = 0.7
    \<and> \<not> stepDetected event 1100 s1
    \<and> lastPeakTime (detectionState s2) = t1'
    \<and> 250 < 1300 - lastPeakTime (detectionState s2)
    \<and> isValidStepInterval 1300 (detectionState s2)
    \<and> confidence (last (stepSignatures (detectionState s3))) = 1.0
    \<and> stepDetected event 1300 s2
    \<and> lastPeakTime (detectionState s3) = t3'
    \<and> steps s3 = 2"
proof -
  define event where "event = \<lparr>event_acceleration = Some (XYZ (Num 0) (Num 10) (round64 9.9)),
               event_accelerationIncludingGravity = None\<rparr>"
  define s0 where "s0 = constructor None"
  define s1 where "s1 = processMotionData event 1000 t1' s0"
  define s2 where "s2 = processMotionData event 1100 t2' s1"
  define s3 where "s3 = processMotionData event 1300 t3' s2"
  have acc: "acceleration_of event = Some (XYZ (Num 0) (Num 10) (round64 9.9))"
    by (simp add: event_def acceleration_of_def)
  note det = walking_event(1) [OF acc] and conf = walking_event(2) [OF acc]
    and peak = walking_event(3) [OF acc] and count = walking_event(4) [OF acc]
    and thr = processMotionData_config(1) and cool = processMotionData_config(2)
  have p0: "lastPeakTime (detectionState s0) = 0" "stepCooldown (detectionState s0) = 250"
    "confidenceThreshold (detectionState s0) = 0.7" "steps s0 = 0"
    by (simp_all add: s0_def fresh_tracker)
  have v0: "isValidStepInterval 1000 (detectionState s0)"
    by (simp add: isValidStepInterval_def p0)
  have d0: "stepDetected event 1000 s0"
    by (simp add: det p0 v0)
  have p1: "lastPeakTime (detectionState s1) = t1'" "stepCooldown (detectionState s1) = 250"
    "confidenceThreshold (detectionState s1) = 0.7" "steps s1 = 1"
    by (simp_all add: s1_def peak cool thr count d0 p0)
  have c1: "confidence (last (stepSignatures (detectionState s1))) = 1"
    by (simp add: s1_def conf v0)
  have v1: "\<not> isValidStepInterval 1100 (detectionState s1)"
    using assms(1) by (simp add: isValidStepInterval_def p1)
  have d1: "\<not> stepDetected event 1100 s1"
    by (simp add: det p1 v1)
  have p2: "lastPeakTime (detectionState s2) = t1'" "stepCooldown (detectionState s2) = 250"
    "confidenceThreshold (detectionState s2) = 0.7" "steps s2 = 1"
    by (simp_all add: s2_def peak cool thr count d1 p1)
  have c2: "confidence (last (stepSignatures (detectionState s2))) = 0.7"
    by (simp add: s2_def conf v1)
  have v2: "isValidStepInterval 1300 (detectionState s2)"
    using assms(2) by (simp add: isValidStepInterval_def p2)
  have d2: "stepDetected event 1300 s2"
    by (simp add: det p2 v2)
  have p3: "lastPeakTime (detectionState s3) = t3'" "steps s3 = 2"
    by (simp_all add: s3_def peak count d2 p2)
  have c3: "confidence (last (stepSignatures (detectionState s3))) = 1"
    by (simp add: s3_def conf v2)
  have "lastPeakTime (detectionState s0) = 0
    \<and> stepDetected event 1000 s0
    \<and> confidence (last (stepSignatures (detectionState s1))) = 1.0
    \<and> lastPeakTime (detectionState s1) = t1'
    \<and> 1100 - lastPeakTime (detectionState s1) \<le> 100
    \<and> \<not> isValidStepInterval 1100 (detectionState s1)
    \<and> confidence (last (stepSignatures (detectionState s2))) = 0.7
    \<and> \<not> stepDetected event 1100 s1
    \<and> lastPeakTime (detectionState s2) = t1'
    \<and> 250 < 1300 - lastPeakTime (detectionState s2)
    \<and> isValidStepInterval 1300 (detectionState s2)
    \<and> confidence (last (stepSignatures (detectionState s3))) = 1.0
    \<and> stepDetected event 1300 s2
    \<and> lastPeakTime (detectionState s3) = t3'
    \<and> steps s3 = 2"
    using p0 d0 c1 p1 v1 c2 d1 p2 v2 c3 d2 p3 assms by simp
  then show ?thesis
    unfolding Let_def s3_def s2_def s1_def s0_def event_def .
qed

text \<open>
  The sequence as the specification words it, the clock standing still inside each
  handler: the last peak is 1000 and the intervals are 100 and 300.
\<close>

theorem worked_sequence_witness:
  "(1000::int) \<le> 1000 \<and> (1000::int) < 1050
   \<and> (let event = \<lparr>event_acceleration = Some (XYZ (Num 0) (Num 10) (round64 9.9)),
               event_accelerationIncludingGravity = None\<rparr>;
       s0 = constructor None;
       s1 = processMotionData event 1000 1000 s0;
       s2 = processMotionData event 1100 1100 s1;
       s3 = processMotionData event 1300 1300 s2
   in stepDetected event 1000 s0
    \<and> confidence (last (stepSignatures (detectionState s1))) = 1.0
    \<and> lastPeakTime (detectionState s1) = 1000
    \<and> 1100 - lastPeakTime (detectionState s1) = 100
    \<and> \<not> stepDetected event 1100 s1
    \<and> confidence (last (stepSignatures (detectionState s2))) = 0.7
    \<and> 1300 - lastPeakTime (detectionState s2) = 300
    \<and> stepDetected event 1300 s2
    \<and> confidence (last (stepSignatures (detectionState s3))) = 1.0
    \<and> lastPeakTime (detectionState s3) = 1300)"
proof -
  have h1: "(1000::int) \<le> 1000" and h2: "(1000::int) < 1050"
    by simp_all
  from worked_sequence [OF h1 h2, of 1100 1300] h1 h2 show ?thesis
    by (simp add: Let_def)
qed

section \<open>The three predicates\<close>

lemma accepted_iff_in_config:
  assumes "confidenceThreshold s = 0.7"
  shows "fst (detectStep x y z t s) =
     (isSignificantMovement x y z \<and> isValidStepInterval t s \<and> isVerticalStep y)"
  using assms by (simp add: detectStep_eq confidence_of_def)

text \<open>
  Claim C10. In every reachable state (weights 0.4, 0.3, 0.3 and threshold 0.7) a sample
  is accepted exactly when the movement is significant, the interval valid and the step
  vertical, all three at once; and an accepted sample has confidence exactly 1.0.
\<close>

theorem accepted_iff_all_three:
  "fst (detectStep x y z t (detectionState (run as (constructor stored)))) =
     (isSignificantMovement x y z
      \<and> isValidStepInterval t (detectionState (run as (constructor stored)))
      \<and> isVerticalStep y)
   \<and> (fst (detectStep x y z t (detectionState (run as (constructor stored)))) \<longrightarrow>
        confidence (last (stepSignatures
          (snd (detectStep x y z t (detectionState (run as (constructor stored))))))) = 1.0)"
proof -
  let ?s = "detectionState (run as (constructor stored))"
  have iff: "fst (detectStep x y z t ?s) =
     (isSignificantMovement x y z \<and> isValidStepInterval t ?s \<and> isVerticalStep y)"
    by (rule accepted_iff_in_config) (rule reachable_config)
  have "confidence_of x y z t ?s = 1"
    if "isSignificantMovement x y z" "isValidStepInterval t ?s" "isVerticalStep y"
    using that by (simp add: confidence_of_def)
  with iff show ?thesis
    by (simp add: stored_confidence)
qed

theorem accepted_iff_all_three_witness:
  "fst (detectStep (Num 0) (Num 10) (round64 9.9) 1000 (detectionState (run [] (constructor None))))
   \<and> confidence (last (stepSignatures
        (snd (detectStep (Num 0) (Num 10) (round64 9.9) 1000
           (detectionState (run [] (constructor None))))))) = 1.0"
proof -
  have v: "isValidStepInterval 1000 (detectionState (run [] (constructor None)))"
    by (simp add: isValidStepInterval_def constructor_state)
  have a: "fst (detectStep (Num 0) (Num 10) (round64 9.9) 1000
      (detectionState (run [] (constructor None))))"
    using accepted_iff_all_three [of "Num 0" "Num 10" "round64 9.9" 1000 "[]" None]
      walking_sample v by simp
  with accepted_iff_all_three [of "Num 0" "Num 10" "round64 9.9" 1000 "[]" None]
  show ?thesis by simp
qed

text \<open>
  Claim C8. Two states with the same \<open>lastPeakTime\<close>, \<open>stepCooldown\<close> and
  \<open>confidenceThreshold\<close>, whatever their signature histories, give the same sample the
  same confidence and the same decision.
\<close>

theorem decision_independent_of_history:
  assumes "lastPeakTime s1 = lastPeakTime s2"
    and "stepCooldown s1 = stepCooldown s2"
    and "confidenceThreshold s1 = confidenceThreshold s2"
  shows "confidence (last (stepSignatures (snd (detectStep x y z t s1)))) =
         confidence (last (stepSignatures (snd (detectStep x y z t s2))))
       \<and> fst (detectStep x y z t s1) = fst (detectStep x y z t s2)"
proof -
  have "isValidStepInterval t s1 = isValidStepInterval t s2"
    using assms by (simp add: isValidStepInterval_def)
  then have c: "confidence_of x y z t s1 = confidence_of x y z t s2"
    by (simp add: confidence_of_def)
  have "fst (detectStep x y z t s1) = fst (detectStep x y z t s2)"
    using assms c \<open>isValidStepInterval t s1 = isValidStepInterval t s2\<close>
    by (simp add: detectStep_eq)
  with c show ?thesis
    by (simp only: stored_confidence)
qed

theorem decision_independent_of_history_witness:
  "lastPeakTime (detectionState (constructor None)) =
     lastPeakTime ((detectionState (constructor None))
       \<lparr>stepSignatures := [signature_of (Num 1) (Num 2) (Num 3) 4 (detectionState (constructor None))]\<rparr>)
   \<and> stepSignatures (detectionState (constructor None)) \<noteq>
     stepSignatures ((detectionState (constructor None))
       \<lparr>stepSignatures := [signature_of (Num 1) (Num 2) (Num 3) 4 (detectionState (constructor None))]\<rparr>)
   \<and> fst (detectStep (Num 0) (Num 10) (round64 9.9) 1000 (detectionState (constructor None))) =
     fst (detectStep (Num 0) (Num 10) (round64 9.9) 1000 ((detectionState (constructor None))
       \<lparr>stepSignatures := [signature_of (Num 1) (Num 2) (Num 3) 4 (detectionState (constructor None))]\<rparr>))"
proof -
  let ?s1 = "detectionState (constructor None)"
  let ?s2 = "?s1\<lparr>stepSignatures := [signature_of (Num 1) (Num 2) (Num 3) 4 ?s1]\<rparr>"
  have h: "lastPeakTime ?s1 = lastPeakTime ?s2" "stepCooldown ?s1 = stepCooldown ?s2"
    "confidenceThreshold ?s1 = confidenceThreshold ?s2"
    by simp_all
  have d: "stepSignatures ?s1 \<noteq> stepSignatures ?s2"
    by (simp add: constructor_state)
  from decision_independent_of_history [OF h, of "Num 0" "Num 10" "round64 9.9" 1000] h(1) d
  show ?thesis by blast
qed

section \<open>Samples that are not finite\<close>

lemma js_plus_NaN_right: "js_plus a NaN = NaN"
  by (cases a) simp_all

lemma magnitude_of_NaN:
  "x = NaN \<or> y = NaN \<or> z = NaN \<Longrightarrow> magnitude_of x y z = NaN"
  by (auto simp: magnitude_of_def js_plus_NaN_right)

lemma square_cases:
  "x \<noteq> NaN \<Longrightarrow> js_times x x = PInf \<or> (\<exists>v\<ge>0. js_times x x = Num v)"
  using round64_nonneg [of "r * r" for r] by (cases x) simp_all

lemma plus_cases:
  assumes "a = PInf \<or> (\<exists>u\<ge>0. a = Num u)" and "b = PInf \<or> (\<exists>v\<ge>0. b = Num v)"
  shows "js_plus a b = PInf \<or> (\<exists>w\<ge>0. js_plus a b = Num w)"
proof -
  have "round64 (u + v) = PInf \<or> (\<exists>w\<ge>0. round64 (u + v) = Num w)"
    if "0 \<le> u" and "0 \<le> v" for u v :: real
    using that by (intro round64_nonneg) simp
  with assms show ?thesis
    by (elim disjE exE conjE) simp_all
qed

lemma plus_PInf:
  assumes "a = PInf \<or> (\<exists>u\<ge>0. a = Num u)"
  shows "js_plus a PInf = PInf" and "js_plus PInf a = PInf"
  using assms by auto

lemma magnitude_of_infinite:
  assumes "x \<noteq> NaN" "y \<noteq> NaN" "z \<noteq> NaN"
    and "x = PInf \<or> x = NInf \<or> y = PInf \<or> y = NInf \<or> z = PInf \<or> z = NInf"
  shows "magnitude_of x y z = PInf"
proof -
  note sx = square_cases [OF assms(1)] and sy = square_cases [OF assms(2)]
    and sz = square_cases [OF assms(3)]
  have "js_plus (js_plus (js_times x x) (js_times y y)) (js_times z z) = PInf"
  proof -
    consider "x = PInf \<or> x = NInf" | "y = PInf \<or> y = NInf" | "z = PInf \<or> z = NInf"
      using assms(4) by blast
    then show ?thesis
    proof cases
      case 1
      then have "js_times x x = PInf" by auto
      then show ?thesis
        by (simp add: plus_PInf [OF sy] plus_PInf [OF sz])
    next
      case 2
      then have "js_times y y = PInf" by auto
      then show ?thesis
        by (simp add: plus_PInf [OF sx] plus_PInf [OF sz])
    next
      case 3
      then have "js_times z z = PInf" by auto
      then show ?thesis
        by (simp add: plus_PInf [OF plus_cases [OF sx sy]])
    qed
  qed
  then show ?thesis
    by (simp add: magnitude_of_def)
qed

text \<open>
  \<open>detectStep\<close> has no guard against non-finite components. An infinite \<open>y\<close> makes the
  magnitude and \<open>|y|\<close> infinite, both comparisons succeed, and the first such sample is
  counted as a step.
\<close>

theorem infinite_sample_counterexample:
  "stepDetected \<lparr>event_acceleration = Some (XYZ (Num 0) PInf (Num 0)),
                 event_accelerationIncludingGravity = None\<rparr> 1000 (constructor None)
   \<and> steps (processMotionData \<lparr>event_acceleration = Some (XYZ (Num 0) PInf (Num 0)),
                 event_accelerationIncludingGravity = None\<rparr> 1000 1000 (constructor None))
     = steps (constructor None) + 1"
proof -
  let ?e = "\<lparr>event_acceleration = Some (XYZ (Num 0) PInf (Num 0)),
                 event_accelerationIncludingGravity = None\<rparr>"
  have "fst (detectStep (Num 0) PInf (Num 0) 1000 (detectionState (constructor None)))"
    by (simp add: accepted_iff_in_config constructor_state isSignificantMovement_def
        magnitude_of_def isVerticalStep_def isValidStepInterval_def round64_6
        round64_9_8_reduced)
  then have "stepDetected ?e 1000 (constructor None)"
    by (simp add: stepDetected_def acceleration_of_def)
  then show ?thesis
    by (simp add: processMotionData_eq acceleration_of_def Let_def)
qed

text \<open>
  Claim C9 (amended). \<open>detectStep\<close> returns on every sample (no operation on numbers
  throws). In every reachable state, a sample with a NaN component is never accepted; a
  sample without NaN but with an infinite component has an infinite magnitude and is
  accepted exactly when the interval is valid and \<open>|y| > 6\<close>.
\<close>

theorem nonfinite_sample:
  "(x = NaN \<or> y = NaN \<or> z = NaN \<longrightarrow>
      \<not> fst (detectStep x y z t (detectionState (run as (constructor stored)))))
   \<and> (x \<noteq> NaN \<and> y \<noteq> NaN \<and> z \<noteq> NaN
      \<and> (x = PInf \<or> x = NInf \<or> y = PInf \<or> y = NInf \<or> z = PInf \<or> z = NInf) \<longrightarrow>
      fst (detectStep x y z t (detectionState (run as (constructor stored)))) =
        (isValidStepInterval t (detectionState (run as (constructor stored)))
         \<and> isVerticalStep y))"
proof -
  let ?s = "detectionState (run as (constructor stored))"
  have iff: "fst (detectStep x y z t ?s) =
     (isSignificantMovement x y z \<and> isValidStepInterval t ?s \<and> isVerticalStep y)"
    by (rule accepted_iff_in_config) (rule reachable_config)
  have "\<not> isSignificantMovement x y z" if "x = NaN \<or> y = NaN \<or> z = NaN"
    using magnitude_of_NaN [OF that] by (simp add: isSignificantMovement_def)
  moreover have "isSignificantMovement x y z"
    if "x \<noteq> NaN \<and> y \<noteq> NaN \<and> z \<noteq> NaN
      \<and> (x = PInf \<or> x = NInf \<or> y = PInf \<or> y = NInf \<or> z = PInf \<or> z = NInf)"
    using that magnitude_of_infinite [of x y z]
    by (simp add: isSignificantMovement_def round64_9_8_reduced)
  ultimately show ?thesis
    unfolding iff by blast
qed

theorem nonfinite_sample_witness:
  "\<not> fst (detectStep NaN (Num 10) (round64 9.9) 1000 (detectionState (run [] (constructor None))))
   \<and> fst (detectStep (Num 0) PInf (Num 0) 1000 (detectionState (run [] (constructor None))))"
proof -
  have v: "isValidStepInterval 1000 (detectionState (run [] (constructor None)))"
    by (simp add: isValidStepInterval_def constructor_state)
  have w: "isVerticalStep PInf"
    by (simp add: isVerticalStep_def round64_6)
  from nonfinite_sample [of NaN "Num 10" "round64 9.9" 1000 "[]" None]
  have a: "\<not> fst (detectStep NaN (Num 10) (round64 9.9) 1000
      (detectionState (run [] (constructor None))))"
    by simp
  from nonfinite_sample [of "Num 0" PInf "Num 0" 1000 "[]" None] v w
  have b: "fst (detectStep (Num 0) PInf (Num 0) 1000
      (detectionState (run [] (constructor None))))"
    by simp
  from a b show ?thesis by simp
qed

section \<open>The signature history\<close>

lemma last_ten_append:
  "drop (length (drop (length xs - n) xs @ ys) - n) (drop (length xs - n) xs @ ys)
   = drop (length (xs @ ys) - n) (xs @ ys)"
  by (cases "length xs \<le> n") (simp_all add: add.commute)

lemma limited_eq_drop:
  "length h \<le> 10 \<Longrightarrow>
   (if length h \<ge> 10 then tl (h @ [sig]) else h @ [sig])
   = drop (length (h @ [sig]) - 10) (h @ [sig])"
  by (cases h) (simp_all add: drop_Suc)

lemma detectStep_history:
  "length (stepSignatures s) \<le> 10 \<Longrightarrow>
   stepSignatures (snd (detectStep x y z t s))
   = drop (length (stepSignatures s @ [signature_of x y z t s]) - 10)
          (stepSignatures s @ [signature_of x y z t s])"
  using limited_eq_drop [of "stepSignatures s" "signature_of x y z t s"]
  by (simp add: detectStep_eq)

lemma handle_history:
  assumes "length (stepSignatures (detectionState this)) \<le> 10"
  shows "stepSignatures (detectionState (handle a this))
     = drop (length (stepSignatures (detectionState this) @ signatures_of [a] this) - 10)
            (stepSignatures (detectionState this) @ signatures_of [a] this)"
proof (cases a)
  case (Motion event now1 now2)
  show ?thesis
  proof (cases "acceleration_of event")
    case None
    with Motion assms show ?thesis
      by (simp add: processMotionData_eq)
  next
    case (Some v)
    have "stepSignatures (detectionState (processMotionData event now1 now2 this))
        = stepSignatures (snd (detectStep (x_of v) (y_of v) (z_of v) now1 (detectionState this)))"
      using Some by (simp add: processMotionData_eq Let_def)
    with Motion Some detectStep_history [OF assms] show ?thesis
      by simp
  qed
qed (use assms in simp_all)

lemma signatures_of_Cons:
  "signatures_of (a # as) this = signatures_of [a] this @ signatures_of as (handle a this)"
  by (cases a) simp_all

lemma run_history:
  "length (stepSignatures (detectionState this)) \<le> 10 \<Longrightarrow>
   stepSignatures (detectionState (run as this))
     = drop (length (stepSignatures (detectionState this) @ signatures_of as this) - 10)
            (stepSignatures (detectionState this) @ signatures_of as this)"
proof (induction as arbitrary: this)
  case Nil
  then show ?case by simp
next
  case (Cons a as)
  let ?h = "stepSignatures (detectionState this)"
  let ?one = "signatures_of [a] this"
  let ?rest = "signatures_of as (handle a this)"
  have h1: "stepSignatures (detectionState (handle a this))
      = drop (length (?h @ ?one) - 10) (?h @ ?one)"
    by (rule handle_history) (rule Cons.prems)
  then have "length (stepSignatures (detectionState (handle a this))) \<le> 10"
    by simp
  from Cons.IH [OF this]
  have "stepSignatures (detectionState (run (a # as) this))
      = drop (length (drop (length (?h @ ?one) - 10) (?h @ ?one) @ ?rest) - 10)
             (drop (length (?h @ ?one) - 10) (?h @ ?one) @ ?rest)"
    by (simp only: run.simps h1)
  also have "\<dots> = drop (length ((?h @ ?one) @ ?rest) - 10) ((?h @ ?one) @ ?rest)"
    by (rule last_ten_append)
  finally show ?case
    by (simp only: signatures_of_Cons [of a as this] append_assoc)
qed

text \<open>
  Claim C6. In every reachable state, a call of \<open>detectStep\<close> appends the one signature
  \<open>{magnitude, verticalMovement = |y|, confidence, timestamp}\<close> of its sample, whatever
  it returns, and drops the oldest entry when that makes eleven. After any run the
  history has at most 10 entries and is the last 10 of all the signatures computed so
  far, in the order of the calls; after 10 calls or more it has exactly 10.
\<close>

theorem signature_history:
  "stepSignatures (snd (detectStep x y z t (detectionState (run as (constructor stored)))))
     = drop (length (stepSignatures (detectionState (run as (constructor stored)))) + 1 - 10)
         (stepSignatures (detectionState (run as (constructor stored)))
          @ [\<lparr>magnitude = magnitude_of x y z, verticalMovement = Math_abs y,
              confidence = confidence_of x y z t (detectionState (run as (constructor stored))),
              timestamp = t\<rparr>])
   \<and> length (stepSignatures (detectionState (run as (constructor stored)))) \<le> 10
   \<and> stepSignatures (detectionState (run as (constructor stored)))
     = drop (length (signatures_of as (constructor stored)) - 10)
         (signatures_of as (constructor stored))
   \<and> (10 \<le> length (signatures_of as (constructor stored)) \<longrightarrow>
        length (stepSignatures (detectionState (run as (constructor stored)))) = 10)"
proof -
  have empty: "stepSignatures (detectionState (constructor stored)) = []"
    by (simp add: constructor_state)
  then have all: "stepSignatures (detectionState (run as (constructor stored)))
     = drop (length (signatures_of as (constructor stored)) - 10)
         (signatures_of as (constructor stored))"
    using run_history [of "constructor stored" as] by simp
  then have bound: "length (stepSignatures (detectionState (run as (constructor stored)))) \<le> 10"
    by simp
  have full: "length (stepSignatures (detectionState (run as (constructor stored)))) = 10"
    if "10 \<le> length (signatures_of as (constructor stored))"
    using that by (simp add: all)
  have push: "stepSignatures (snd (detectStep x y z t (detectionState (run as (constructor stored)))))
     = drop (length (stepSignatures (detectionState (run as (constructor stored)))) + 1 - 10)
         (stepSignatures (detectionState (run as (constructor stored)))
          @ [\<lparr>magnitude = magnitude_of x y z, verticalMovement = Math_abs y,
              confidence = confidence_of x y z t (detectionState (run as (constructor stored))),
              timestamp = t\<rparr>])"
    using detectStep_history [OF bound, of x y z t] by (simp add: signature_of_def)
  from push bound all full show ?thesis
    by blast
qed

theorem signature_history_witness:
  "10 \<le> length (signatures_of
      (replicate 11 (Motion \<lparr>event_acceleration = Some (XYZ (Num 0) (Num 10) (round64 9.9)),
                 event_accelerationIncludingGravity = None\<rparr> 1000 1000)) (constructor None))
   \<and> length (stepSignatures (detectionState (run
      (replicate 11 (Motion \<lparr>event_acceleration = Some (XYZ (Num 0) (Num 10) (round64 9.9)),
                 event_accelerationIncludingGravity = None\<rparr> 1000 1000)) (constructor None))))
     = 10"
proof -
  let ?as = "replicate 11 (Motion \<lparr>event_acceleration = Some (XYZ (Num 0) (Num 10) (round64 9.9)),
                 event_accelerationIncludingGravity = None\<rparr> 1000 1000)"
  have h: "10 \<le> length (signatures_of ?as (constructor None))"
    by (simp add: eval_nat_numeral acceleration_of_def)
  with signature_history [of "Num 0" "Num 0" "Num 0" 0 ?as None]
  show ?thesis by blast
qed

section \<open>The last peak\<close>

text \<open>
  \<open>recordStep\<close> does not receive the time \<open>detectStep\<close> worked with: it reads the clock
  again. When the clock has advanced in between, \<open>lastPeakTime\<close> is not the timestamp of
  the accepted sample.
\<close>

theorem record_time_counterexample:
  "stepDetected \<lparr>event_acceleration = Some (XYZ (Num 0) (Num 10) (round64 9.9)),
                 event_accelerationIncludingGravity = None\<rparr> 1000 (constructor None)
   \<and> timestamp (last (stepSignatures (detectionState
        (processMotionData \<lparr>event_acceleration = Some (XYZ (Num 0) (Num 10) (round64 9.9)),
                 event_accelerationIncludingGravity = None\<rparr> 1000 1001 (constructor None)))))
      = 1000
   \<and> lastPeakTime (detectionState
        (processMotionData \<lparr>event_acceleration = Some (XYZ (Num 0) (Num 10) (round64 9.9)),
                 event_accelerationIncludingGravity = None\<rparr> 1000 1001 (constructor None)))
      \<noteq> 1000"
proof -
  let ?e = "\<lparr>event_acceleration = Some (XYZ (Num 0) (Num 10) (round64 9.9)),
                 event_accelerationIncludingGravity = None\<rparr>"
  have "isValidStepInterval 1000 (detectionState (constructor None))"
    by (simp add: isValidStepInterval_def constructor_state)
  then have d: "stepDetected ?e 1000 (constructor None)"
    by (simp add: stepDetected_def acceleration_of_def walking_accepted constructor_state)
  then show ?thesis
    by (simp add: processMotionData_eq acceleration_of_def Let_def detectStep_eq
        constructor_state signature_of_def)
qed

lemma stepDetected_valid:
  "stepDetected event now1 this \<Longrightarrow> isValidStepInterval now1 (detectionState this)"
  by (simp add: stepDetected_def detectStep_eq split: option.splits)

text \<open>
  Claim C7 (amended). In every reachable state, a rejected sample changes nothing but
  \<open>stepSignatures\<close>; an accepted one also increments \<open>steps\<close> and sets \<open>lastPeakTime\<close> to
  the time \<open>recordStep\<close> reads from the clock. With a clock that does not go back inside
  the handler, \<open>lastPeakTime\<close> changes exactly when the sample is accepted.
\<close>

theorem lastPeakTime_frame:
  "processMotionData event now1 now2 (run as (constructor stored)) =
    (if stepDetected event now1 (run as (constructor stored))
     then (run as (constructor stored))
       \<lparr>steps := steps (run as (constructor stored)) + 1,
        detectionState := (detectionState (run as (constructor stored)))
          \<lparr>lastPeakTime := now2,
           stepSignatures := stepSignatures (detectionState
             (processMotionData event now1 now2 (run as (constructor stored))))\<rparr>\<rparr>
     else (run as (constructor stored))
       \<lparr>detectionState := (detectionState (run as (constructor stored)))
          \<lparr>stepSignatures := stepSignatures (detectionState
             (processMotionData event now1 now2 (run as (constructor stored))))\<rparr>\<rparr>)
   \<and> (now1 \<le> now2 \<longrightarrow>
        (lastPeakTime (detectionState
            (processMotionData event now1 now2 (run as (constructor stored))))
          \<noteq> lastPeakTime (detectionState (run as (constructor stored))))
        = stepDetected event now1 (run as (constructor stored)))"
proof -
  let ?tr = "run as (constructor stored)"
  have frame: "processMotionData event now1 now2 ?tr =
    (if stepDetected event now1 ?tr
     then ?tr\<lparr>steps := steps ?tr + 1,
        detectionState := (detectionState ?tr)
          \<lparr>lastPeakTime := now2,
           stepSignatures := stepSignatures (detectionState
             (processMotionData event now1 now2 ?tr))\<rparr>\<rparr>
     else ?tr\<lparr>detectionState := (detectionState ?tr)
          \<lparr>stepSignatures := stepSignatures (detectionState
             (processMotionData event now1 now2 ?tr))\<rparr>\<rparr>)"
  proof (cases "acceleration_of event")
    case None
    then show ?thesis
      by (simp add: processMotionData_eq stepDetected_def)
  next
    case (Some a)
    then show ?thesis
      by (simp add: processMotionData_eq Let_def detectStep_eq)
  qed
  have changed: "(lastPeakTime (detectionState (processMotionData event now1 now2 ?tr))
          \<noteq> lastPeakTime (detectionState ?tr)) = stepDetected event now1 ?tr"
    if "now1 \<le> now2"
  proof (cases "stepDetected event now1 ?tr")
    case True
    from stepDetected_valid [OF True] have "lastPeakTime (detectionState ?tr) < now1"
      by (simp add: isValidStepInterval_def reachable_config)
    moreover have "lastPeakTime (detectionState (processMotionData event now1 now2 ?tr)) = now2"
      by (subst frame) (simp add: True)
    ultimately show ?thesis
      using True that by simp
  next
    case False
    have "lastPeakTime (detectionState (processMotionData event now1 now2 ?tr))
        = lastPeakTime (detectionState ?tr)"
      by (subst frame) (simp add: False)
    then show ?thesis
      using False by simp
  qed
  from frame changed show ?thesis
    by blast
qed

theorem lastPeakTime_frame_witness:
  "(1000::int) \<le> 1001
   \<and> stepDetected \<lparr>event_acceleration = Some (XYZ (Num 0) (Num 10) (round64 9.9)),
                 event_accelerationIncludingGravity = None\<rparr> 1000 (run [] (constructor None))
   \<and> lastPeakTime (detectionState
        (processMotionData \<lparr>event_acceleration = Some (XYZ (Num 0) (Num 10) (round64 9.9)),
                 event_accelerationIncludingGravity = None\<rparr> 1000 1001
           (run [] (constructor None))))
      \<noteq> lastPeakTime (detectionState (run [] (constructor None)))"
proof -
  let ?e = "\<lparr>event_acceleration = Some (XYZ (Num 0) (Num 10) (round64 9.9)),
                 event_accelerationIncludingGravity = None\<rparr>"
  have h: "(1000::int) \<le> 1001" by simp
  have "isValidStepInterval 1000 (detectionState (constructor None))"
    by (simp add: isValidStepInterval_def constructor_state)
  then have d: "stepDetected ?e 1000 (run [] (constructor None))"
    by (simp add: stepDetected_def acceleration_of_def walking_accepted constructor_state)
  from lastPeakTime_frame [of ?e 1000 1001 "[]" None] h d
  show ?thesis by blast
qed

section \<open>The cooldown\<close>

lemma run_append: "run (as @ bs) this = run bs (run as this)"
  by (induction as arbitrary: this) simp_all

lemma handle_lastPeakTime_mono:
  assumes "0 \<le> stepCooldown (detectionState this)" and "clock_ordered a"
  shows "lastPeakTime (detectionState this) \<le> lastPeakTime (detectionState (handle a this))"
proof (cases a)
  case (Motion event now1 now2)
  show ?thesis
  proof (cases "stepDetected event now1 this")
    case True
    from stepDetected_valid [OF True] assms(1)
    have "lastPeakTime (detectionState this) < now1"
      by (simp add: isValidStepInterval_def)
    moreover have "lastPeakTime (detectionState (handle a this)) = now2"
      using True Motion
      by (simp add: processMotionData_eq stepDetected_def Let_def split: option.splits)
    ultimately show ?thesis
      using assms(2) Motion by simp
  next
    case False
    then show ?thesis
      using Motion
      by (simp add: processMotionData_eq detectStep_eq Let_def split: option.splits)
  qed
qed simp_all

lemma run_lastPeakTime_mono:
  "0 \<le> stepCooldown (detectionState this) \<Longrightarrow> list_all clock_ordered as \<Longrightarrow>
   lastPeakTime (detectionState this) \<le> lastPeakTime (detectionState (run as this))"
proof (induction as arbitrary: this)
  case Nil
  then show ?case by simp
next
  case (Cons a as)
  from Cons.prems have "lastPeakTime (detectionState this)
      \<le> lastPeakTime (detectionState (handle a this))"
    by (simp add: handle_lastPeakTime_mono)
  moreover from Cons.prems have "lastPeakTime (detectionState (handle a this))
      \<le> lastPeakTime (detectionState (run as (handle a this)))"
    by (intro Cons.IH) (simp_all add: handle_config)
  ultimately show ?case by simp
qed

text \<open>
  The cooldown is counted from the time \<open>recordStep\<close> reads. When the clock is set back
  between the two readings of a handler, that time is before the accepted sample's, and
  a sample inside the window of the accepted one is accepted too.
\<close>

theorem clock_set_back_counterexample:
  "stepDetected \<lparr>event_acceleration = Some (XYZ (Num 0) (Num 10) (round64 9.9)),
               event_accelerationIncludingGravity = None\<rparr> 1000 (constructor None)
   \<and> stepDetected \<lparr>event_acceleration = Some (XYZ (Num 0) (Num 10) (round64 9.9)),
               event_accelerationIncludingGravity = None\<rparr> 1100 (processMotionData \<lparr>event_acceleration = Some (XYZ (Num 0) (Num 10) (round64 9.9)),
               event_accelerationIncludingGravity = None\<rparr> 1000 700 (constructor None))"
proof -
  let ?e = "\<lparr>event_acceleration = Some (XYZ (Num 0) (Num 10) (round64 9.9)),
               event_accelerationIncludingGravity = None\<rparr>"
  have acc: "acceleration_of ?e = Some (XYZ (Num 0) (Num 10) (round64 9.9))"
    by (simp add: acceleration_of_def)
  have "isValidStepInterval 1000 (detectionState (constructor None))"
    by (simp add: isValidStepInterval_def fresh_tracker)
  then have d: "stepDetected ?e 1000 (constructor None)"
    by (simp add: walking_event(1) [OF acc] fresh_tracker)
  let ?s = "processMotionData ?e 1000 700 (constructor None)"
  have "lastPeakTime (detectionState ?s) = 700"
    using d by (simp add: walking_event(3) [OF acc])
  moreover have "stepCooldown (detectionState ?s) = 250"
    and thr: "confidenceThreshold (detectionState ?s) = 0.7"
    by (simp_all add: processMotionData_config fresh_tracker)
  ultimately have "isValidStepInterval 1100 (detectionState ?s)"
    by (simp add: isValidStepInterval_def)
  then have "stepDetected ?e 1100 ?s"
    by (simp add: walking_event(1) [OF acc] thr)
  with d show ?thesis by simp
qed

text \<open>
  Claim C3 (amended). With a clock that does not go back between the two readings of a
  handler: once a sample is accepted at time \<open>T\<close>, no later call accepts a sample whose
  time is at most \<open>T + 250\<close>, neither one in \<open>(T, T + 250]\<close> nor one that precedes \<open>T\<close>,
  whatever its acceleration and whatever happened in between.
\<close>

theorem cooldown_enforced:
  assumes "stepDetected event T (run before (constructor stored))"
    and "T \<le> T'"
    and "list_all clock_ordered between"
    and "t \<le> T + 250"
  shows "\<not> stepDetected event' t
           (run (before @ Motion event T T' # between) (constructor stored))"
proof
  let ?s = "run before (constructor stored)"
  let ?s' = "processMotionData event T T' ?s"
  let ?s'' = "run (before @ Motion event T T' # between) (constructor stored)"
  assume "stepDetected event' t ?s''"
  from stepDetected_valid [OF this]
  have "lastPeakTime (detectionState ?s'') + 250 < t"
    by (simp add: isValidStepInterval_def reachable_config)
  moreover have "lastPeakTime (detectionState ?s') = T'"
    using assms(1)
    by (simp add: processMotionData_eq stepDetected_def Let_def split: option.splits)
  moreover have "stepCooldown (detectionState ?s') = 250"
    using reachable_config(1) [of "before @ [Motion event T T']" stored]
    by (simp add: run_append)
  then have "lastPeakTime (detectionState ?s') \<le> lastPeakTime (detectionState (run between ?s'))"
    using assms(3) by (intro run_lastPeakTime_mono) simp_all
  moreover have "?s'' = run between ?s'"
    by (simp add: run_append)
  ultimately show False
    using assms(2,4) by simp
qed

theorem cooldown_enforced_witness:
  "stepDetected \<lparr>event_acceleration = Some (XYZ (Num 0) (Num 10) (round64 9.9)),
                 event_accelerationIncludingGravity = None\<rparr> 1000 (run [] (constructor None))
   \<and> (1000::int) \<le> 1001
   \<and> list_all clock_ordered [ManualStep]
   \<and> (1250::int) \<le> 1000 + 250
   \<and> \<not> stepDetected \<lparr>event_acceleration = Some (XYZ (Num 0) (Num 10) (round64 9.9)),
                 event_accelerationIncludingGravity = None\<rparr> 1250
         (run ([] @ Motion \<lparr>event_acceleration = Some (XYZ (Num 0) (Num 10) (round64 9.9)),
                 event_accelerationIncludingGravity = None\<rparr> 1000 1001 # [ManualStep])
            (constructor None))"
proof -
  let ?e = "\<lparr>event_acceleration = Some (XYZ (Num 0) (Num 10) (round64 9.9)),
                 event_accelerationIncludingGravity = None\<rparr>"
  have "isValidStepInterval 1000 (detectionState (constructor None))"
    by (simp add: isValidStepInterval_def constructor_state)
  then have h1: "stepDetected ?e 1000 (run [] (constructor None))"
    by (simp add: stepDetected_def acceleration_of_def walking_accepted constructor_state)
  have h2: "(1000::int) \<le> 1001" by simp
  have h3: "list_all clock_ordered [ManualStep]" by simp
  have h4: "(1250::int) \<le> 1000 + 250" by simp
  from cooldown_enforced [OF h1 h2 h3 h4, of ?e] h1 h2 h3 h4
  show ?thesis by blast
qed

end
